theory Spec2Isabelle
  imports Main "HOL-Library.Word" "HOL-Library.Sublist"
begin

section \<open>Change-to-event translation of the state store\<close>

text \<open>
  The development embeds the two functions of the state package that turn the row changes
  of one committed write transaction into stream events: \<open>eventsFromChanges\<close> (the batch
  assembler) and \<open>eventFromChange\<close> (the classifier), together with the table
  \<open>MsgTypeEvents\<close> they consult.

  Go hands rows around as pointers, and the classifier copies two kinds of rows before
  it edits them. The embedding therefore keeps every row in an explicit heap and lets
  each function take the heap and return the heap it leaves behind.
\<close>

subsection \<open>Rows\<close>

text \<open>
  Modelled from the spec: the struct declarations of the structs package are not part
  of the sources at hand. Each record carries the fields the classifier reads or writes;
  \<open>Node_SecretID\<close> is the secret field the spec has the node sanitizer clear, and
  \<open>Node_Name\<close> and \<open>Allocation_Name\<close> stand for the remaining fields, which a copy keeps.
  A field of pointer type (\<open>Allocation_Job\<close>) is an optional address, \<open>None\<close> being nil.
\<close>

type_synonym addr = nat

record ACLToken =
  AccessorID :: string
  ACLToken_SecretID :: string

record ACLPolicy =
  ACLPolicy_Name :: string

record AuthMethod =
  AuthMethod_Name :: string

record Evaluation =
  Evaluation_ID :: string
  Evaluation_Namespace :: string
  Evaluation_JobID :: string
  Evaluation_DeploymentID :: string

record Allocation =
  Allocation_ID :: string
  Allocation_Namespace :: string
  Allocation_Name :: string
  Allocation_JobID :: string
  Allocation_DeploymentID :: string
  Allocation_Job :: "addr option"

record Job =
  Job_ID :: string
  Job_Namespace :: string

record Node =
  Node_ID :: string
  Node_SecretID :: string
  Node_Name :: string

record Deployment =
  Deployment_ID :: string
  Deployment_Namespace :: string
  Deployment_JobID :: string

record ServiceRegistration =
  ServiceRegistration_ID :: string
  ServiceRegistration_Namespace :: string
  ServiceRegistration_JobID :: string
  ServiceName :: string

subsection \<open>The heap and interface values\<close>

text \<open>
  A heap is the list of the objects allocated so far; an address is a position in it.
  Allocation appends, so the address it returns is never one already in use.
  \<open>OOther\<close> is a row of any type the classifier does not know.
\<close>

datatype obj =
    OACLToken ACLToken
  | OACLPolicy ACLPolicy
  | OAuthMethod AuthMethod
  | OEvaluation Evaluation
  | OAllocation Allocation
  | OJob Job
  | ONode Node
  | ODeployment Deployment
  | OServiceRegistration ServiceRegistration
  | OOther

type_synonym heap = "obj list"

definition lookup :: "heap \<Rightarrow> addr \<Rightarrow> obj option" where
  "lookup h a = (if a < length h then Some (h ! a) else None)"

definition new :: "heap \<Rightarrow> obj \<Rightarrow> heap \<times> addr" where
  "new h ob = (h @ [ob], length h)"

text \<open>
  The \<open>Before\<close> and \<open>After\<close> of a change have Go's empty interface type: nil, or a
  non-nil pointer to a row. The dynamic type of a pointer is the type of the object it
  points to, which is what a type assertion \<open>v.(*structs.T)\<close> tests; the assertion
  yields the pointer itself. An address beyond the heap, which no Go pointer is, has no
  dynamic type, and every assertion on it fails.
\<close>

datatype iface = NilValue | Pointer addr

datatype rowtype =
    TACLToken | TACLPolicy | TAuthMethod | TEvaluation | TAllocation | TJob | TNode
  | TDeployment | TServiceRegistration | TOther

fun typeOf :: "obj \<Rightarrow> rowtype" where
  "typeOf (OACLToken _) = TACLToken"
| "typeOf (OACLPolicy _) = TACLPolicy"
| "typeOf (OAuthMethod _) = TAuthMethod"
| "typeOf (OEvaluation _) = TEvaluation"
| "typeOf (OAllocation _) = TAllocation"
| "typeOf (OJob _) = TJob"
| "typeOf (ONode _) = TNode"
| "typeOf (ODeployment _) = TDeployment"
| "typeOf (OServiceRegistration _) = TServiceRegistration"
| "typeOf OOther = TOther"

definition assertType :: "rowtype \<Rightarrow> heap \<Rightarrow> iface \<Rightarrow> addr option" where
  "assertType t h v =
     (case v of
        NilValue \<Rightarrow> None
      | Pointer a \<Rightarrow>
          (case lookup h a of
             None \<Rightarrow> None
           | Some ob \<Rightarrow> if typeOf ob = t then Some a else None))"

text \<open>
  Reading through a pointer of static type \<open>*T\<close>. Go's typing makes the object at the
  address a \<open>T\<close>; the classifier only reads through pointers it has just asserted or
  allocated. For any other address the functions return the zero value of the struct.
\<close>

definition derefACLToken :: "heap \<Rightarrow> addr \<Rightarrow> ACLToken" where
  "derefACLToken h a =
     (case lookup h a of Some (OACLToken x) \<Rightarrow> x
      | _ \<Rightarrow> \<lparr>AccessorID = [], ACLToken_SecretID = []\<rparr>)"

definition derefACLPolicy :: "heap \<Rightarrow> addr \<Rightarrow> ACLPolicy" where
  "derefACLPolicy h a =
     (case lookup h a of Some (OACLPolicy x) \<Rightarrow> x | _ \<Rightarrow> \<lparr>ACLPolicy_Name = []\<rparr>)"

definition derefAuthMethod :: "heap \<Rightarrow> addr \<Rightarrow> AuthMethod" where
  "derefAuthMethod h a =
     (case lookup h a of Some (OAuthMethod x) \<Rightarrow> x | _ \<Rightarrow> \<lparr>AuthMethod_Name = []\<rparr>)"

definition derefEvaluation :: "heap \<Rightarrow> addr \<Rightarrow> Evaluation" where
  "derefEvaluation h a =
     (case lookup h a of Some (OEvaluation x) \<Rightarrow> x
      | _ \<Rightarrow> \<lparr>Evaluation_ID = [], Evaluation_Namespace = [], Evaluation_JobID = [],
             Evaluation_DeploymentID = []\<rparr>)"

definition derefAllocation :: "heap \<Rightarrow> addr \<Rightarrow> Allocation" where
  "derefAllocation h a =
     (case lookup h a of Some (OAllocation x) \<Rightarrow> x
      | _ \<Rightarrow> \<lparr>Allocation_ID = [], Allocation_Namespace = [], Allocation_Name = [],
             Allocation_JobID = [], Allocation_DeploymentID = [], Allocation_Job = None\<rparr>)"

definition derefJob :: "heap \<Rightarrow> addr \<Rightarrow> Job" where
  "derefJob h a =
     (case lookup h a of Some (OJob x) \<Rightarrow> x | _ \<Rightarrow> \<lparr>Job_ID = [], Job_Namespace = []\<rparr>)"

definition derefNode :: "heap \<Rightarrow> addr \<Rightarrow> Node" where
  "derefNode h a =
     (case lookup h a of Some (ONode x) \<Rightarrow> x
      | _ \<Rightarrow> \<lparr>Node_ID = [], Node_SecretID = [], Node_Name = []\<rparr>)"

definition derefDeployment :: "heap \<Rightarrow> addr \<Rightarrow> Deployment" where
  "derefDeployment h a =
     (case lookup h a of Some (ODeployment x) \<Rightarrow> x
      | _ \<Rightarrow> \<lparr>Deployment_ID = [], Deployment_Namespace = [], Deployment_JobID = []\<rparr>)"

definition derefServiceRegistration :: "heap \<Rightarrow> addr \<Rightarrow> ServiceRegistration" where
  "derefServiceRegistration h a =
     (case lookup h a of Some (OServiceRegistration x) \<Rightarrow> x
      | _ \<Rightarrow> \<lparr>ServiceRegistration_ID = [], ServiceRegistration_Namespace = [],
             ServiceRegistration_JobID = [], ServiceName = []\<rparr>)"

text \<open>The assignment \<open>alloc.Job = nil\<close> through the pointer \<open>alloc\<close>.\<close>

definition setAllocationJob :: "heap \<Rightarrow> addr \<Rightarrow> addr option \<Rightarrow> heap" where
  "setAllocationJob h a j =
     (case lookup h a of
        Some (OAllocation x) \<Rightarrow> h[a := OAllocation (x\<lparr>Allocation_Job := j\<rparr>)]
      | _ \<Rightarrow> h)"

subsection \<open>Events\<close>

text \<open>
  Modelled from the spec: the topic and event-type constants, the payload structs and
  the \<open>Event\<close> and \<open>Events\<close> structs are declared in the structs package. A topic and
  an event type are strings in Go; here each named constant is a constructor, and
  \<open>TopicUnset\<close> and \<open>TypeUnset\<close> are the empty string of the zero-valued
  \<open>structs.Event{}\<close>. A payload is a pointer to a freshly built wrapper struct around a
  row pointer; the wrapper is never written to again, so it is a value here, and
  \<open>NoPayload\<close> is the nil payload.
\<close>

datatype Topic =
    TopicUnset | TopicACLToken | TopicACLPolicy | TopicAuthMethod | TopicEvaluation
  | TopicAllocation | TopicJob | TopicNode | TopicDeployment | TopicService

datatype EventType =
    TypeUnset
  | TypeNodeRegistration | TypeNodeDeregistration | TypeNodeEvent | TypeEvalUpdated
  | TypeAllocationUpdated | TypeJobRegistered | TypeJobDeregistered
  | TypeJobBatchDeregistered | TypeAllocationUpdateDesiredStatus | TypeNodeDrain
  | TypeDeploymentUpdate | TypeDeploymentPromotion | TypeDeploymentAllocHealth
  | TypePlanResult | TypeACLTokenDeleted | TypeACLTokenUpserted | TypeACLPolicyDeleted
  | TypeACLPolicyUpserted | TypeServiceRegistration | TypeServiceDeregistration

datatype Payload =
    NoPayload
  | ACLTokenEvent addr
  | ACLPolicyEvent addr
  | AuthMethodEvent addr
  | EvaluationEvent addr
  | AllocationEvent addr
  | JobEvent addr
  | NodeStreamEvent addr
  | DeploymentEvent addr
  | ServiceRegistrationStreamEvent addr

record Event =
  Topic :: Topic
  Type :: EventType
  Key :: string
  Namespace :: string
  FilterKeys :: "string list"
  Index :: "64 word"
  Payload :: Payload

record Events =
  Events_Index :: "64 word"
  Events_Events :: "Event list"

definition emptyEvent :: Event where
  "emptyEvent =
     \<lparr>Topic = TopicUnset, Type = TypeUnset, Key = [], Namespace = [], FilterKeys = [],
      Index = 0, Payload = NoPayload\<rparr>"

subsection \<open>Changes\<close>

text \<open>
  Modelled from the spec: \<open>memdb.Change\<close>, its method \<open>Deleted\<close> and the struct
  \<open>Changes\<close> are declared outside the sources at hand. The spec gives a change a table,
  a before and an after snapshot and a deleted flag, and a change set an index, a write
  kind and the ordered changes.
\<close>

record Change =
  Table :: string
  Before :: iface
  After :: iface
  Deleted :: bool

text \<open>
  Modelled from the spec: the message-type constants are declared in the structs
  package. The constants that key \<open>MsgTypeEvents\<close> are pairwise different (Go rejects
  a map literal with a repeated constant key); \<open>OtherRequestType\<close> is any other value
  of the type.
\<close>

datatype MessageType =
    NodeRegisterRequestType
  | NodeDeregisterRequestType
  | UpsertNodeEventsType
  | EvalUpdateRequestType
  | AllocClientUpdateRequestType
  | JobRegisterRequestType
  | AllocUpdateRequestType
  | NodeUpdateStatusRequestType
  | JobDeregisterRequestType
  | JobBatchDeregisterRequestType
  | AllocUpdateDesiredTransitionRequestType
  | NodeUpdateEligibilityRequestType
  | NodeUpdateDrainRequestType
  | BatchNodeUpdateDrainRequestType
  | DeploymentStatusUpdateRequestType
  | DeploymentPromoteRequestType
  | DeploymentAllocHealthRequestType
  | ApplyPlanResultsRequestType
  | ACLTokenDeleteRequestType
  | ACLTokenUpsertRequestType
  | ACLPolicyDeleteRequestType
  | ACLPolicyUpsertRequestType
  | ServiceRegistrationUpsertRequestType
  | ServiceRegistrationDeleteByIDRequestType
  | ServiceRegistrationDeleteByNodeIDRequestType
  | OtherRequestType nat

record Changes =
  Changes_Changes :: "Change list"
  Changes_Index :: "64 word"
  Changes_MsgType :: MessageType

subsection \<open>The write-kind registry\<close>

definition MsgTypeEvents :: "MessageType \<rightharpoonup> EventType" where
  "MsgTypeEvents = map_of
     [(NodeRegisterRequestType, TypeNodeRegistration),
      (NodeDeregisterRequestType, TypeNodeDeregistration),
      (UpsertNodeEventsType, TypeNodeEvent),
      (EvalUpdateRequestType, TypeEvalUpdated),
      (AllocClientUpdateRequestType, TypeAllocationUpdated),
      (JobRegisterRequestType, TypeJobRegistered),
      (AllocUpdateRequestType, TypeAllocationUpdated),
      (NodeUpdateStatusRequestType, TypeNodeEvent),
      (JobDeregisterRequestType, TypeJobDeregistered),
      (JobBatchDeregisterRequestType, TypeJobBatchDeregistered),
      (AllocUpdateDesiredTransitionRequestType, TypeAllocationUpdateDesiredStatus),
      (NodeUpdateEligibilityRequestType, TypeNodeDrain),
      (NodeUpdateDrainRequestType, TypeNodeDrain),
      (BatchNodeUpdateDrainRequestType, TypeNodeDrain),
      (DeploymentStatusUpdateRequestType, TypeDeploymentUpdate),
      (DeploymentPromoteRequestType, TypeDeploymentPromotion),
      (DeploymentAllocHealthRequestType, TypeDeploymentAllocHealth),
      (ApplyPlanResultsRequestType, TypePlanResult),
      (ACLTokenDeleteRequestType, TypeACLTokenDeleted),
      (ACLTokenUpsertRequestType, TypeACLTokenUpserted),
      (ACLPolicyDeleteRequestType, TypeACLPolicyDeleted),
      (ACLPolicyUpsertRequestType, TypeACLPolicyUpserted),
      (ServiceRegistrationUpsertRequestType, TypeServiceRegistration),
      (ServiceRegistrationDeleteByIDRequestType, TypeServiceDeregistration),
      (ServiceRegistrationDeleteByNodeIDRequestType, TypeServiceDeregistration)]"

subsection \<open>Helpers of the structs package\<close>

text \<open>
  Modelled from the spec: \<open>Node.Sanitize\<close> is not part of the sources at hand. By the
  spec's node-sanitize rule it produces a shallow copy of the node snapshot with the
  secret field cleared.
\<close>

definition Sanitize :: "heap \<Rightarrow> addr \<Rightarrow> heap \<times> addr" where
  "Sanitize h n = new h (ONode ((derefNode h n)\<lparr>Node_SecretID := []\<rparr>))"

text \<open>
  Modelled from the spec: \<open>Allocation.Copy\<close> is not part of the sources at hand. By the
  spec's allocation-shrink rule the classifier works on a shallow copy of the
  allocation snapshot.
\<close>

definition Copy :: "heap \<Rightarrow> addr \<Rightarrow> heap \<times> addr" where
  "Copy h a = new h (OAllocation (derefAllocation h a))"

text \<open>
  Modelled from the spec: \<open>NewACLTokenEvent\<close> is not part of the sources at hand. The
  spec gives the access-token row no special handling; the function is taken to build
  the token variant of the payload around the pointer it is given.
\<close>

definition NewACLTokenEvent :: "addr \<Rightarrow> Payload" where
  "NewACLTokenEvent token = ACLTokenEvent token"

text \<open>
  Modelled from the spec: the constant \<open>TableServiceRegistrations\<close> is declared
  elsewhere in the package. It names the service-registration table and differs from
  the table names written out in the classifier (Go rejects a switch that repeats a
  constant case).
\<close>

definition TableServiceRegistrations :: string where
  "TableServiceRegistrations = ''service_registrations''"

subsection \<open>The classifier\<close>

text \<open>
  \<open>eventFromChange\<close> returns the event and the flag \<open>ok\<close>, and the heap as it leaves it.
  A Go switch takes the first case that matches; the cases are tried here in the order
  they are written.
\<close>

definition eventFromChange :: "heap \<Rightarrow> Change \<Rightarrow> heap \<times> Event \<times> bool" where
  "eventFromChange h change =
     (if Deleted change then
        (if Table change = ''acl_token'' then
           (case assertType TACLToken h (Before change) of
              None \<Rightarrow> (h, emptyEvent, False)
            | Some before \<Rightarrow>
                (h, emptyEvent\<lparr>Topic := TopicACLToken,
                      Key := AccessorID (derefACLToken h before),
                      Payload := NewACLTokenEvent before\<rparr>, True))
         else if Table change = ''acl_policy'' then
           (case assertType TACLPolicy h (Before change) of
              None \<Rightarrow> (h, emptyEvent, False)
            | Some before \<Rightarrow>
                (h, emptyEvent\<lparr>Topic := TopicACLPolicy,
                      Key := ACLPolicy_Name (derefACLPolicy h before),
                      Payload := ACLPolicyEvent before\<rparr>, True))
         else if Table change = ''nodes'' then
           (case assertType TNode h (Before change) of
              None \<Rightarrow> (h, emptyEvent, False)
            | Some before0 \<Rightarrow>
                (case Sanitize h before0 of
                   (h1, before) \<Rightarrow>
                     (h1, emptyEvent\<lparr>Topic := TopicNode,
                            Key := Node_ID (derefNode h1 before),
                            Payload := NodeStreamEvent before\<rparr>, True)))
         else if Table change = TableServiceRegistrations then
           (case assertType TServiceRegistration h (Before change) of
              None \<Rightarrow> (h, emptyEvent, False)
            | Some before \<Rightarrow>
                (h, emptyEvent\<lparr>Topic := TopicService,
                      Key := ServiceRegistration_ID (derefServiceRegistration h before),
                      FilterKeys :=
                        [ServiceRegistration_JobID (derefServiceRegistration h before),
                         ServiceName (derefServiceRegistration h before)],
                      Namespace :=
                        ServiceRegistration_Namespace (derefServiceRegistration h before),
                      Payload := ServiceRegistrationStreamEvent before\<rparr>, True))
         else (h, emptyEvent, False))
      else if Table change = ''acl_token'' then
        (case assertType TACLToken h (After change) of
           None \<Rightarrow> (h, emptyEvent, False)
         | Some after \<Rightarrow>
             (h, emptyEvent\<lparr>Topic := TopicACLToken,
                   Key := AccessorID (derefACLToken h after),
                   Payload := NewACLTokenEvent after\<rparr>, True))
      else if Table change = ''acl_policy'' then
        (case assertType TACLPolicy h (After change) of
           None \<Rightarrow> (h, emptyEvent, False)
         | Some after \<Rightarrow>
             (h, emptyEvent\<lparr>Topic := TopicACLPolicy,
                   Key := ACLPolicy_Name (derefACLPolicy h after),
                   Payload := ACLPolicyEvent after\<rparr>, True))
      else if Table change = ''auth_method'' then
        (case assertType TAuthMethod h (After change) of
           None \<Rightarrow> (h, emptyEvent, False)
         | Some after \<Rightarrow>
             (h, emptyEvent\<lparr>Topic := TopicAuthMethod,
                   Key := AuthMethod_Name (derefAuthMethod h after),
                   Payload := AuthMethodEvent after\<rparr>, True))
      else if Table change = ''evals'' then
        (case assertType TEvaluation h (After change) of
           None \<Rightarrow> (h, emptyEvent, False)
         | Some after \<Rightarrow>
             (h, emptyEvent\<lparr>Topic := TopicEvaluation,
                   Key := Evaluation_ID (derefEvaluation h after),
                   FilterKeys :=
                     [Evaluation_JobID (derefEvaluation h after),
                      Evaluation_DeploymentID (derefEvaluation h after)],
                   Namespace := Evaluation_Namespace (derefEvaluation h after),
                   Payload := EvaluationEvent after\<rparr>, True))
      else if Table change = ''allocs'' then
        (case assertType TAllocation h (After change) of
           None \<Rightarrow> (h, emptyEvent, False)
         | Some after \<Rightarrow>
             (case Copy h after of
                (h1, alloc) \<Rightarrow>
                  (let filterKeys =
                         [Allocation_JobID (derefAllocation h1 alloc),
                          Allocation_DeploymentID (derefAllocation h1 alloc)];
                       h2 = setAllocationJob h1 alloc None
                   in (h2, emptyEvent\<lparr>Topic := TopicAllocation,
                             Key := Allocation_ID (derefAllocation h2 after),
                             FilterKeys := filterKeys,
                             Namespace := Allocation_Namespace (derefAllocation h2 after),
                             Payload := AllocationEvent alloc\<rparr>, True))))
      else if Table change = ''jobs'' then
        (case assertType TJob h (After change) of
           None \<Rightarrow> (h, emptyEvent, False)
         | Some after \<Rightarrow>
             (h, emptyEvent\<lparr>Topic := TopicJob,
                   Key := Job_ID (derefJob h after),
                   Namespace := Job_Namespace (derefJob h after),
                   Payload := JobEvent after\<rparr>, True))
      else if Table change = ''nodes'' then
        (case assertType TNode h (After change) of
           None \<Rightarrow> (h, emptyEvent, False)
         | Some after0 \<Rightarrow>
             (case Sanitize h after0 of
                (h1, after) \<Rightarrow>
                  (h1, emptyEvent\<lparr>Topic := TopicNode,
                         Key := Node_ID (derefNode h1 after),
                         Payload := NodeStreamEvent after\<rparr>, True)))
      else if Table change = ''deployment'' then
        (case assertType TDeployment h (After change) of
           None \<Rightarrow> (h, emptyEvent, False)
         | Some after \<Rightarrow>
             (h, emptyEvent\<lparr>Topic := TopicDeployment,
                   Key := Deployment_ID (derefDeployment h after),
                   Namespace := Deployment_Namespace (derefDeployment h after),
                   FilterKeys := [Deployment_JobID (derefDeployment h after)],
                   Payload := DeploymentEvent after\<rparr>, True))
      else if Table change = TableServiceRegistrations then
        (case assertType TServiceRegistration h (After change) of
           None \<Rightarrow> (h, emptyEvent, False)
         | Some after \<Rightarrow>
             (h, emptyEvent\<lparr>Topic := TopicService,
                   Key := ServiceRegistration_ID (derefServiceRegistration h after),
                   FilterKeys :=
                     [ServiceRegistration_JobID (derefServiceRegistration h after),
                      ServiceName (derefServiceRegistration h after)],
                   Namespace :=
                     ServiceRegistration_Namespace (derefServiceRegistration h after),
                   Payload := ServiceRegistrationStreamEvent after\<rparr>, True))
      else (h, emptyEvent, False))"

subsection \<open>The batch assembler\<close>

text \<open>
  The loop of \<open>eventsFromChanges\<close>: \<open>events\<close> is the slice built so far, and each
  change that classifies appends its stamped event to it.
\<close>

fun appendEvents ::
  "EventType \<Rightarrow> 64 word \<Rightarrow> heap \<Rightarrow> Event list \<Rightarrow> Change list \<Rightarrow> heap \<times> Event list"
where
  "appendEvents eventType idx h events [] = (h, events)"
| "appendEvents eventType idx h events (change # rest) =
     (case eventFromChange h change of
        (h', event, ok) \<Rightarrow>
          if ok
          then appendEvents eventType idx h'
                 (events @ [event\<lparr>Type := eventType, Index := idx\<rparr>]) rest
          else appendEvents eventType idx h' events rest)"

text \<open>
  The read transaction \<open>tx\<close> that the Go function also takes is not used by it. The
  result \<open>None\<close> is the nil pointer the function returns for a write kind without an
  entry in the registry.
\<close>

definition eventsFromChanges :: "heap \<Rightarrow> Changes \<Rightarrow> heap \<times> Events option" where
  "eventsFromChanges h changes =
     (case MsgTypeEvents (Changes_MsgType changes) of
        None \<Rightarrow> (h, None)
      | Some eventType \<Rightarrow>
          (case appendEvents eventType (Changes_Index changes) h [] (Changes_Changes changes) of
             (h', events) \<Rightarrow>
               (h', Some \<lparr>Events_Index = Changes_Index changes, Events_Events = events\<rparr>)))"

subsection \<open>Vocabulary of the properties\<close>

text \<open>
  The snapshot a change is classified by: \<open>Before\<close> on the delete path, \<open>After\<close>
  otherwise.
\<close>

definition authoritative :: "Change \<Rightarrow> iface" where
  "authoritative c = (if Deleted c then Before c else After c)"

text \<open>
  The row type that the classifier asserts for each table it has a case for, read off
  the cases of \<open>eventFromChange\<close>. A table without an entry is outside the dispatch set.
\<close>

definition expectedType :: "string \<rightharpoonup> rowtype" where
  "expectedType = map_of
     [(''acl_token'', TACLToken),
      (''acl_policy'', TACLPolicy),
      (''auth_method'', TAuthMethod),
      (''evals'', TEvaluation),
      (''allocs'', TAllocation),
      (''jobs'', TJob),
      (''nodes'', TNode),
      (''deployment'', TDeployment),
      (TableServiceRegistrations, TServiceRegistration)]"

text \<open>
  A change is a mismatch in a heap when its table is outside the dispatch set, or its
  authoritative snapshot is nil, or that snapshot points to a row of the heap whose type
  is not the one its table expects.
\<close>

definition mismatch :: "heap \<Rightarrow> Change \<Rightarrow> bool" where
  "mismatch h c =
     (case expectedType (Table c) of
        None \<Rightarrow> True
      | Some t \<Rightarrow>
          (case authoritative c of
             NilValue \<Rightarrow> True
           | Pointer a \<Rightarrow>
               (case lookup h a of None \<Rightarrow> False | Some ob \<Rightarrow> typeOf ob \<noteq> t)))"

text \<open>
  The outcome of the classifier for every change of a list, in the order of the list:
  the stamped event where the change classifies and \<open>None\<close> where it does not. Each
  change is classified in the heap left by the changes before it.
\<close>

fun classifications ::
  "EventType \<Rightarrow> 64 word \<Rightarrow> heap \<Rightarrow> Change list \<Rightarrow> Event option list"
where
  "classifications eventType idx h [] = []"
| "classifications eventType idx h (change # rest) =
     (case eventFromChange h change of
        (h', event, ok) \<Rightarrow>
          (if ok then Some (event\<lparr>Type := eventType, Index := idx\<rparr>) else None)
            # classifications eventType idx h' rest)"

subsection \<open>Example data\<close>

text \<open>
  A heap with one row of several kinds, and changes over it: the allocation of job
  \<open>web\<close> and deployment \<open>d1\<close> points to its job, and the node carries a secret.
\<close>

abbreviation exampleJob :: Job where
  "exampleJob \<equiv> \<lparr>Job_ID = ''web'', Job_Namespace = ''default''\<rparr>"

abbreviation exampleAllocation :: Allocation where
  "exampleAllocation \<equiv>
     \<lparr>Allocation_ID = ''a1'', Allocation_Namespace = ''default'',
      Allocation_Name = ''web.cache[0]'', Allocation_JobID = ''web'',
      Allocation_DeploymentID = ''d1'', Allocation_Job = Some 0\<rparr>"

abbreviation exampleNode :: Node where
  "exampleNode \<equiv> \<lparr>Node_ID = ''n1'', Node_SecretID = ''s3cr3t'', Node_Name = ''client-1''\<rparr>"

abbreviation exampleToken :: ACLToken where
  "exampleToken \<equiv> \<lparr>AccessorID = ''acc-1'', ACLToken_SecretID = ''tok''\<rparr>"

abbreviation examplePolicy :: ACLPolicy where
  "examplePolicy \<equiv> \<lparr>ACLPolicy_Name = ''readonly''\<rparr>"

abbreviation exampleService :: ServiceRegistration where
  "exampleService \<equiv>
     \<lparr>ServiceRegistration_ID = ''svc-1'', ServiceRegistration_Namespace = ''default'',
      ServiceRegistration_JobID = ''web'', ServiceName = ''redis''\<rparr>"

abbreviation exampleHeap :: heap where
  "exampleHeap \<equiv>
     [OJob exampleJob, OAllocation exampleAllocation, ONode exampleNode,
      OACLToken exampleToken, OACLPolicy examplePolicy, OServiceRegistration exampleService]"

abbreviation allocUpsert :: Change where
  "allocUpsert \<equiv>
     \<lparr>Table = ''allocs'', Before = NilValue, After = Pointer 1, Deleted = False\<rparr>"

abbreviation jobsMismatch :: Change where
  "jobsMismatch \<equiv>
     \<lparr>Table = ''jobs'', Before = NilValue, After = Pointer 2, Deleted = False\<rparr>"

abbreviation jobDelete :: Change where
  "jobDelete \<equiv> \<lparr>Table = ''jobs'', Before = Pointer 0, After = NilValue, Deleted = True\<rparr>"

abbreviation nodeDelete :: Change where
  "nodeDelete \<equiv> \<lparr>Table = ''nodes'', Before = Pointer 2, After = NilValue, Deleted = True\<rparr>"

abbreviation nodeUpsert :: Change where
  "nodeUpsert \<equiv> \<lparr>Table = ''nodes'', Before = NilValue, After = Pointer 2, Deleted = False\<rparr>"

abbreviation tokenDelete :: Change where
  "tokenDelete \<equiv>
     \<lparr>Table = ''acl_token'', Before = Pointer 3, After = NilValue, Deleted = True\<rparr>"

abbreviation tokenUpsert :: Change where
  "tokenUpsert \<equiv>
     \<lparr>Table = ''acl_token'', Before = NilValue, After = Pointer 3, Deleted = False\<rparr>"

abbreviation policyDelete :: Change where
  "policyDelete \<equiv>
     \<lparr>Table = ''acl_policy'', Before = Pointer 4, After = NilValue, Deleted = True\<rparr>"

abbreviation serviceDelete :: Change where
  "serviceDelete \<equiv>
     \<lparr>Table = TableServiceRegistrations, Before = Pointer 5, After = NilValue,
      Deleted = True\<rparr>"

abbreviation serviceUpsert :: Change where
  "serviceUpsert \<equiv>
     \<lparr>Table = TableServiceRegistrations, Before = NilValue, After = Pointer 5,
      Deleted = False\<rparr>"

abbreviation exampleChanges :: Changes where
  "exampleChanges \<equiv>
     \<lparr>Changes_Changes = [allocUpsert, jobsMismatch, nodeDelete], Changes_Index = 42,
      Changes_MsgType = AllocUpdateRequestType\<rparr>"

section \<open>Properties\<close>

subsection \<open>The heap only grows\<close>

lemma lookup_append: "a < length h \<Longrightarrow> lookup (h @ ext) a = lookup h a"
  by (simp add: lookup_def nth_append)

lemma lookup_new: "lookup (h @ [ob]) (length h) = Some ob"
  by (simp add: lookup_def)

lemma lookup_Some_less: "lookup h a = Some ob \<Longrightarrow> a < length h"
  by (simp add: lookup_def split: if_splits)

lemma lookup_Some_append: "lookup h a = Some ob \<Longrightarrow> lookup (h @ ext) a = Some ob"
  by (simp add: lookup_Some_less lookup_append)

lemma assertType_Some:
  "assertType t h v = Some a \<longleftrightarrow> v = Pointer a \<and> (\<exists>ob. lookup h a = Some ob \<and> typeOf ob = t)"
  by (auto simp: assertType_def split: iface.splits option.splits)

lemma assertType_Pointer:
  "lookup h a = Some ob \<Longrightarrow> assertType t h (Pointer a) = (if typeOf ob = t then Some a else None)"
  by (simp add: assertType_def)

lemma assertType_less: "assertType t h v = Some a \<Longrightarrow> a < length h"
  by (auto simp: assertType_Some dest: lookup_Some_less)

lemma Sanitize_eq:
  "Sanitize h n = (h @ [ONode ((derefNode h n)\<lparr>Node_SecretID := []\<rparr>)], length h)"
  by (simp add: Sanitize_def new_def)

lemma Copy_eq: "Copy h a = (h @ [OAllocation (derefAllocation h a)], length h)"
  by (simp add: Copy_def new_def)

lemma derefNode_new: "derefNode (h @ [ONode x]) (length h) = x"
  by (simp add: derefNode_def lookup_new)

lemma derefAllocation_new: "derefAllocation (h @ [OAllocation x]) (length h) = x"
  by (simp add: derefAllocation_def lookup_new)

lemma setAllocationJob_new:
  "setAllocationJob (h @ [OAllocation x]) (length h) j =
     h @ [OAllocation (x\<lparr>Allocation_Job := j\<rparr>)]"
  by (simp add: setAllocationJob_def lookup_new)

lemma derefAllocation_append:
  "a < length h \<Longrightarrow> derefAllocation (h @ ext) a = derefAllocation h a"
  by (simp add: derefAllocation_def lookup_append)

subsection \<open>The classifier, case by case\<close>

lemma deleted_acl_token:
  "Deleted c \<Longrightarrow> Table c = ''acl_token'' \<Longrightarrow>
   eventFromChange h c =
     (case assertType TACLToken h (Before c) of
        None \<Rightarrow> (h, emptyEvent, False)
      | Some p \<Rightarrow>
          (h, emptyEvent\<lparr>Topic := TopicACLToken, Key := AccessorID (derefACLToken h p),
                Payload := NewACLTokenEvent p\<rparr>, True))"
  by (simp add: eventFromChange_def)

lemma deleted_acl_policy:
  "Deleted c \<Longrightarrow> Table c = ''acl_policy'' \<Longrightarrow>
   eventFromChange h c =
     (case assertType TACLPolicy h (Before c) of
        None \<Rightarrow> (h, emptyEvent, False)
      | Some p \<Rightarrow>
          (h, emptyEvent\<lparr>Topic := TopicACLPolicy, Key := ACLPolicy_Name (derefACLPolicy h p),
                Payload := ACLPolicyEvent p\<rparr>, True))"
  by (simp add: eventFromChange_def)

lemma deleted_nodes:
  "Deleted c \<Longrightarrow> Table c = ''nodes'' \<Longrightarrow>
   eventFromChange h c =
     (case assertType TNode h (Before c) of
        None \<Rightarrow> (h, emptyEvent, False)
      | Some p \<Rightarrow>
          (h @ [ONode ((derefNode h p)\<lparr>Node_SecretID := []\<rparr>)],
           emptyEvent\<lparr>Topic := TopicNode, Key := Node_ID (derefNode h p),
             Payload := NodeStreamEvent (length h)\<rparr>, True))"
  by (simp add: eventFromChange_def Sanitize_eq derefNode_new split: option.splits)

lemma deleted_service:
  "Deleted c \<Longrightarrow> Table c = TableServiceRegistrations \<Longrightarrow>
   eventFromChange h c =
     (case assertType TServiceRegistration h (Before c) of
        None \<Rightarrow> (h, emptyEvent, False)
      | Some p \<Rightarrow>
          (h, emptyEvent\<lparr>Topic := TopicService,
                Key := ServiceRegistration_ID (derefServiceRegistration h p),
                FilterKeys :=
                  [ServiceRegistration_JobID (derefServiceRegistration h p),
                   ServiceName (derefServiceRegistration h p)],
                Namespace := ServiceRegistration_Namespace (derefServiceRegistration h p),
                Payload := ServiceRegistrationStreamEvent p\<rparr>, True))"
  by (simp add: eventFromChange_def TableServiceRegistrations_def)

lemma deleted_other:
  "Deleted c \<Longrightarrow>
   Table c \<notin> {''acl_token'', ''acl_policy'', ''nodes'', TableServiceRegistrations} \<Longrightarrow>
   eventFromChange h c = (h, emptyEvent, False)"
  by (simp add: eventFromChange_def)

lemma upsert_acl_token:
  "\<not> Deleted c \<Longrightarrow> Table c = ''acl_token'' \<Longrightarrow>
   eventFromChange h c =
     (case assertType TACLToken h (After c) of
        None \<Rightarrow> (h, emptyEvent, False)
      | Some p \<Rightarrow>
          (h, emptyEvent\<lparr>Topic := TopicACLToken, Key := AccessorID (derefACLToken h p),
                Payload := NewACLTokenEvent p\<rparr>, True))"
  by (simp add: eventFromChange_def)

lemma upsert_acl_policy:
  "\<not> Deleted c \<Longrightarrow> Table c = ''acl_policy'' \<Longrightarrow>
   eventFromChange h c =
     (case assertType TACLPolicy h (After c) of
        None \<Rightarrow> (h, emptyEvent, False)
      | Some p \<Rightarrow>
          (h, emptyEvent\<lparr>Topic := TopicACLPolicy, Key := ACLPolicy_Name (derefACLPolicy h p),
                Payload := ACLPolicyEvent p\<rparr>, True))"
  by (simp add: eventFromChange_def)

lemma upsert_auth_method:
  "\<not> Deleted c \<Longrightarrow> Table c = ''auth_method'' \<Longrightarrow>
   eventFromChange h c =
     (case assertType TAuthMethod h (After c) of
        None \<Rightarrow> (h, emptyEvent, False)
      | Some p \<Rightarrow>
          (h, emptyEvent\<lparr>Topic := TopicAuthMethod, Key := AuthMethod_Name (derefAuthMethod h p),
                Payload := AuthMethodEvent p\<rparr>, True))"
  by (simp add: eventFromChange_def)

lemma upsert_evals:
  "\<not> Deleted c \<Longrightarrow> Table c = ''evals'' \<Longrightarrow>
   eventFromChange h c =
     (case assertType TEvaluation h (After c) of
        None \<Rightarrow> (h, emptyEvent, False)
      | Some p \<Rightarrow>
          (h, emptyEvent\<lparr>Topic := TopicEvaluation, Key := Evaluation_ID (derefEvaluation h p),
                FilterKeys :=
                  [Evaluation_JobID (derefEvaluation h p),
                   Evaluation_DeploymentID (derefEvaluation h p)],
                Namespace := Evaluation_Namespace (derefEvaluation h p),
                Payload := EvaluationEvent p\<rparr>, True))"
  by (simp add: eventFromChange_def)

lemma upsert_allocs:
  "\<not> Deleted c \<Longrightarrow> Table c = ''allocs'' \<Longrightarrow>
   eventFromChange h c =
     (case assertType TAllocation h (After c) of
        None \<Rightarrow> (h, emptyEvent, False)
      | Some p \<Rightarrow>
          (h @ [OAllocation ((derefAllocation h p)\<lparr>Allocation_Job := None\<rparr>)],
           emptyEvent\<lparr>Topic := TopicAllocation, Key := Allocation_ID (derefAllocation h p),
             FilterKeys :=
               [Allocation_JobID (derefAllocation h p),
                Allocation_DeploymentID (derefAllocation h p)],
             Namespace := Allocation_Namespace (derefAllocation h p),
             Payload := AllocationEvent (length h)\<rparr>, True))"
  by (simp add: eventFromChange_def Copy_eq derefAllocation_new setAllocationJob_new
        derefAllocation_append assertType_less split: option.splits)

lemma upsert_jobs:
  "\<not> Deleted c \<Longrightarrow> Table c = ''jobs'' \<Longrightarrow>
   eventFromChange h c =
     (case assertType TJob h (After c) of
        None \<Rightarrow> (h, emptyEvent, False)
      | Some p \<Rightarrow>
          (h, emptyEvent\<lparr>Topic := TopicJob, Key := Job_ID (derefJob h p),
                Namespace := Job_Namespace (derefJob h p), Payload := JobEvent p\<rparr>, True))"
  by (simp add: eventFromChange_def)

lemma upsert_nodes:
  "\<not> Deleted c \<Longrightarrow> Table c = ''nodes'' \<Longrightarrow>
   eventFromChange h c =
     (case assertType TNode h (After c) of
        None \<Rightarrow> (h, emptyEvent, False)
      | Some p \<Rightarrow>
          (h @ [ONode ((derefNode h p)\<lparr>Node_SecretID := []\<rparr>)],
           emptyEvent\<lparr>Topic := TopicNode, Key := Node_ID (derefNode h p),
             Payload := NodeStreamEvent (length h)\<rparr>, True))"
  by (simp add: eventFromChange_def Sanitize_eq derefNode_new split: option.splits)

lemma upsert_deployment:
  "\<not> Deleted c \<Longrightarrow> Table c = ''deployment'' \<Longrightarrow>
   eventFromChange h c =
     (case assertType TDeployment h (After c) of
        None \<Rightarrow> (h, emptyEvent, False)
      | Some p \<Rightarrow>
          (h, emptyEvent\<lparr>Topic := TopicDeployment, Key := Deployment_ID (derefDeployment h p),
                Namespace := Deployment_Namespace (derefDeployment h p),
                FilterKeys := [Deployment_JobID (derefDeployment h p)],
                Payload := DeploymentEvent p\<rparr>, True))"
  by (simp add: eventFromChange_def)

lemma upsert_service:
  "\<not> Deleted c \<Longrightarrow> Table c = TableServiceRegistrations \<Longrightarrow>
   eventFromChange h c =
     (case assertType TServiceRegistration h (After c) of
        None \<Rightarrow> (h, emptyEvent, False)
      | Some p \<Rightarrow>
          (h, emptyEvent\<lparr>Topic := TopicService,
                Key := ServiceRegistration_ID (derefServiceRegistration h p),
                FilterKeys :=
                  [ServiceRegistration_JobID (derefServiceRegistration h p),
                   ServiceName (derefServiceRegistration h p)],
                Namespace := ServiceRegistration_Namespace (derefServiceRegistration h p),
                Payload := ServiceRegistrationStreamEvent p\<rparr>, True))"
  by (simp add: eventFromChange_def TableServiceRegistrations_def)

lemma upsert_other:
  "\<not> Deleted c \<Longrightarrow>
   Table c \<notin> {''acl_token'', ''acl_policy'', ''auth_method'', ''evals'', ''allocs'', ''jobs'',
                ''nodes'', ''deployment'', TableServiceRegistrations} \<Longrightarrow>
   eventFromChange h c = (h, emptyEvent, False)"
  by (simp add: eventFromChange_def)

lemmas branches =
  deleted_acl_token deleted_acl_policy deleted_nodes deleted_service
  upsert_acl_token upsert_acl_policy upsert_auth_method upsert_evals upsert_allocs
  upsert_jobs upsert_nodes upsert_deployment upsert_service

lemma table_cases:
  obtains "Table c = ''acl_token''" | "Table c = ''acl_policy''" | "Table c = ''auth_method''"
  | "Table c = ''evals''" | "Table c = ''allocs''" | "Table c = ''jobs''" | "Table c = ''nodes''"
  | "Table c = ''deployment''" | "Table c = TableServiceRegistrations"
  | "Table c \<notin> {''acl_token'', ''acl_policy'', ''auth_method'', ''evals'', ''allocs'', ''jobs'',
                ''nodes'', ''deployment'', TableServiceRegistrations}"
  by blast

lemma eventFromChange_extends: "\<exists>ext. fst (eventFromChange h c) = h @ ext"
proof (cases "Deleted c")
  case True
  show ?thesis
  proof (cases c rule: table_cases)
    case 1 with True show ?thesis by (simp add: deleted_acl_token split: option.splits)
  next
    case 2 with True show ?thesis by (simp add: deleted_acl_policy split: option.splits)
  next
    case 7 with True show ?thesis by (simp add: deleted_nodes split: option.splits)
  next
    case 9 with True show ?thesis by (simp add: deleted_service split: option.splits)
  qed (use True in \<open>simp_all add: deleted_other TableServiceRegistrations_def\<close>)
next
  case False
  show ?thesis
    by (cases c rule: table_cases)
      (use False in \<open>simp_all add: branches upsert_other split: option.splits\<close>)
qed


subsection \<open>The loop of the assembler\<close>

lemma appendEvents_Cons:
  "eventFromChange h c = (h', e, ok) \<Longrightarrow>
   appendEvents et i h evs (c # cs) =
     appendEvents et i h' (if ok then evs @ [e\<lparr>Type := et, Index := i\<rparr>] else evs) cs"
  by simp

lemma classifications_Cons:
  "eventFromChange h c = (h', e, ok) \<Longrightarrow>
   classifications et i h (c # cs) =
     (if ok then Some (e\<lparr>Type := et, Index := i\<rparr>) else None) # classifications et i h' cs"
  by simp

lemma appendEvents_classifications:
  "map Some (snd (appendEvents et i h evs cs)) =
     map Some evs @ filter (\<lambda>r. r \<noteq> None) (classifications et i h cs)"
proof (induction cs arbitrary: h evs)
  case Nil
  show ?case by simp
next
  case (Cons c cs)
  obtain h' e ok where r: "eventFromChange h c = (h', e, ok)"
    by (cases "eventFromChange h c") auto
  show ?case
    unfolding appendEvents_Cons [OF r] classifications_Cons [OF r] Cons.IH
    by simp
qed

lemma length_classifications: "length (classifications et i h cs) = length cs"
proof (induction cs arbitrary: h)
  case Nil
  show ?case by simp
next
  case (Cons c cs)
  obtain h' e ok where r: "eventFromChange h c = (h', e, ok)"
    by (cases "eventFromChange h c") auto
  show ?case
    unfolding classifications_Cons [OF r] by (simp add: Cons.IH)
qed

lemma appendEvents_extends: "\<exists>ext. fst (appendEvents et i h evs cs) = h @ ext"
proof (induction cs arbitrary: h evs)
  case Nil
  show ?case by simp
next
  case (Cons c cs)
  obtain h' e ok where r: "eventFromChange h c = (h', e, ok)"
    by (cases "eventFromChange h c") auto
  from eventFromChange_extends [of h c] r obtain ext where h': "h' = h @ ext"
    by auto
  from Cons.IH [of h'] obtain ext' where
    "fst (appendEvents et i h' (if ok then evs @ [e\<lparr>Type := et, Index := i\<rparr>] else evs) cs) =
       h' @ ext'"
    by blast
  then show ?case
    unfolding appendEvents_Cons [OF r] h' by simp
qed

lemma appendEvents_stamped:
  "\<forall>e \<in> set evs. Index e = i \<and> Type e = et \<Longrightarrow>
   \<forall>e \<in> set (snd (appendEvents et i h evs cs)). Index e = i \<and> Type e = et"
proof (induction cs arbitrary: h evs)
  case Nil
  then show ?case by simp
next
  case (Cons c cs)
  obtain h' e ok where r: "eventFromChange h c = (h', e, ok)"
    by (cases "eventFromChange h c") auto
  have "\<forall>x \<in> set (if ok then evs @ [e\<lparr>Type := et, Index := i\<rparr>] else evs).
          Index x = i \<and> Type x = et"
    using Cons.prems by simp
  from Cons.IH [OF this] show ?case
    unfolding appendEvents_Cons [OF r] .
qed

lemma appendEvents_append:
  "appendEvents et i h evs (xs @ ys) =
     (case appendEvents et i h evs xs of (h', evs') \<Rightarrow> appendEvents et i h' evs' ys)"
proof (induction xs arbitrary: h evs)
  case Nil
  show ?case by simp
next
  case (Cons c cs)
  obtain h' e ok where r: "eventFromChange h c = (h', e, ok)"
    by (cases "eventFromChange h c") auto
  show ?case
    unfolding append_Cons appendEvents_Cons [OF r] by (rule Cons.IH)
qed

subsection \<open>Mismatches\<close>

lemma mismatch_append: "mismatch h c \<Longrightarrow> mismatch (h @ ext) c"
  by (auto simp: mismatch_def lookup_Some_append split: option.splits iface.splits)

lemma mismatch_assert:
  "mismatch h c \<Longrightarrow> expectedType (Table c) = Some t \<Longrightarrow> assertType t h (authoritative c) = None"
  by (auto simp: mismatch_def assertType_def split: option.splits iface.splits)

lemma mismatch_no_event:
  assumes "mismatch h c"
  shows "eventFromChange h c = (h, emptyEvent, False)"
proof (cases "Deleted c")
  case True
  then have a: "authoritative c = Before c" by (simp add: authoritative_def)
  show ?thesis
  proof (cases c rule: table_cases)
    case 1
    then have "expectedType (Table c) = Some TACLToken" by (simp add: expectedType_def)
    from mismatch_assert [OF assms this] 1 True a show ?thesis by (simp add: deleted_acl_token)
  next
    case 2
    then have "expectedType (Table c) = Some TACLPolicy" by (simp add: expectedType_def)
    from mismatch_assert [OF assms this] 2 True a show ?thesis by (simp add: deleted_acl_policy)
  next
    case 7
    then have "expectedType (Table c) = Some TNode" by (simp add: expectedType_def)
    from mismatch_assert [OF assms this] 7 True a show ?thesis by (simp add: deleted_nodes)
  next
    case 9
    then have "expectedType (Table c) = Some TServiceRegistration" by (simp add: expectedType_def TableServiceRegistrations_def)
    from mismatch_assert [OF assms this] 9 True a show ?thesis by (simp add: deleted_service)
  qed (use True in \<open>simp_all add: deleted_other TableServiceRegistrations_def\<close>)
next
  case False
  then have a: "authoritative c = After c" by (simp add: authoritative_def)
  show ?thesis
  proof (cases c rule: table_cases)
    case 1
    then have "expectedType (Table c) = Some TACLToken" by (simp add: expectedType_def)
    from mismatch_assert [OF assms this] 1 False a show ?thesis by (simp add: upsert_acl_token)
  next
    case 2
    then have "expectedType (Table c) = Some TACLPolicy" by (simp add: expectedType_def)
    from mismatch_assert [OF assms this] 2 False a show ?thesis by (simp add: upsert_acl_policy)
  next
    case 3
    then have "expectedType (Table c) = Some TAuthMethod" by (simp add: expectedType_def)
    from mismatch_assert [OF assms this] 3 False a show ?thesis by (simp add: upsert_auth_method)
  next
    case 4
    then have "expectedType (Table c) = Some TEvaluation" by (simp add: expectedType_def)
    from mismatch_assert [OF assms this] 4 False a show ?thesis by (simp add: upsert_evals)
  next
    case 5
    then have "expectedType (Table c) = Some TAllocation" by (simp add: expectedType_def)
    from mismatch_assert [OF assms this] 5 False a show ?thesis by (simp add: upsert_allocs)
  next
    case 6
    then have "expectedType (Table c) = Some TJob" by (simp add: expectedType_def)
    from mismatch_assert [OF assms this] 6 False a show ?thesis by (simp add: upsert_jobs)
  next
    case 7
    then have "expectedType (Table c) = Some TNode" by (simp add: expectedType_def)
    from mismatch_assert [OF assms this] 7 False a show ?thesis by (simp add: upsert_nodes)
  next
    case 8
    then have "expectedType (Table c) = Some TDeployment" by (simp add: expectedType_def)
    from mismatch_assert [OF assms this] 8 False a show ?thesis by (simp add: upsert_deployment)
  next
    case 9
    then have "expectedType (Table c) = Some TServiceRegistration" by (simp add: expectedType_def TableServiceRegistrations_def)
    from mismatch_assert [OF assms this] 9 False a show ?thesis by (simp add: upsert_service)
  next
    case 10
    with False show ?thesis by (simp add: upsert_other)
  qed
qed

subsection \<open>Facts shared by the claims\<close>

lemma eventsFromChanges_mapped:
  "MsgTypeEvents (Changes_MsgType changes) = Some et \<Longrightarrow>
   eventsFromChanges h changes =
     (fst (appendEvents et (Changes_Index changes) h [] (Changes_Changes changes)),
      Some \<lparr>Events_Index = Changes_Index changes,
            Events_Events =
              snd (appendEvents et (Changes_Index changes) h [] (Changes_Changes changes))\<rparr>)"
  by (simp add: eventsFromChanges_def split: prod.splits)

lemma eventsFromChanges_unmapped:
  "MsgTypeEvents (Changes_MsgType changes) = None \<Longrightarrow> eventsFromChanges h changes = (h, None)"
  by (simp add: eventsFromChanges_def)

lemma authoritative_Deleted: "Deleted c \<Longrightarrow> authoritative c = Before c"
  by (simp add: authoritative_def)

lemma authoritative_upsert: "\<not> Deleted c \<Longrightarrow> authoritative c = After c"
  by (simp add: authoritative_def)

lemma derefNode_ONode: "lookup h a = Some (ONode n) \<Longrightarrow> derefNode h a = n"
  by (simp add: derefNode_def)

lemma derefAllocation_OAllocation:
  "lookup h a = Some (OAllocation x) \<Longrightarrow> derefAllocation h a = x"
  by (simp add: derefAllocation_def)

lemma derefACLToken_OACLToken: "lookup h a = Some (OACLToken x) \<Longrightarrow> derefACLToken h a = x"
  by (simp add: derefACLToken_def)

lemma derefACLPolicy_OACLPolicy: "lookup h a = Some (OACLPolicy x) \<Longrightarrow> derefACLPolicy h a = x"
  by (simp add: derefACLPolicy_def)

lemma derefServiceRegistration_OServiceRegistration:
  "lookup h a = Some (OServiceRegistration x) \<Longrightarrow> derefServiceRegistration h a = x"
  by (simp add: derefServiceRegistration_def)

text \<open>The classifier on the example data, in the example heap and in any heap that extends it.\<close>

lemma MsgTypeEvents_AllocUpdate:
  "MsgTypeEvents AllocUpdateRequestType = Some TypeAllocationUpdated"
  by (simp add: MsgTypeEvents_def)

lemma eventFromChange_allocUpsert:
  "eventFromChange (exampleHeap @ ext) allocUpsert =
     (exampleHeap @ ext @ [OAllocation (exampleAllocation\<lparr>Allocation_Job := None\<rparr>)],
      \<lparr>Topic = TopicAllocation, Type = TypeUnset, Key = ''a1'', Namespace = ''default'',
       FilterKeys = [''web'', ''d1''], Index = 0,
       Payload = AllocationEvent (6 + length ext)\<rparr>, True)"
  by (simp add: upsert_allocs assertType_def lookup_def derefAllocation_def emptyEvent_def)

lemma eventFromChange_jobsMismatch:
  "eventFromChange (exampleHeap @ ext) jobsMismatch = (exampleHeap @ ext, emptyEvent, False)"
  by (simp add: upsert_jobs assertType_def lookup_def)

lemma eventFromChange_nodeDelete:
  "eventFromChange (exampleHeap @ ext) nodeDelete =
     (exampleHeap @ ext @ [ONode (exampleNode\<lparr>Node_SecretID := []\<rparr>)],
      \<lparr>Topic = TopicNode, Type = TypeUnset, Key = ''n1'', Namespace = [], FilterKeys = [],
       Index = 0, Payload = NodeStreamEvent (6 + length ext)\<rparr>, True)"
  by (simp add: deleted_nodes assertType_def lookup_def derefNode_def emptyEvent_def)

subsection \<open>The batch assembler\<close>

text \<open>
  Claim C1. For a change set whose write kind the registry maps, the events of the
  batch are an order-preserving, possibly sparse subsequence of the changes: the list
  \<open>classifications\<close> holds one outcome per change, in the order of the changes, and the
  events of the batch are exactly its entries that are events, in that order. So every
  event comes from classifying one change, no change gives more than one event, and
  nothing is reordered.
\<close>

theorem eventsFromChanges_subsequence:
  assumes "MsgTypeEvents (Changes_MsgType changes) = Some eventType"
  shows "\<exists>h' batch.
           eventsFromChanges h changes = (h', Some batch) \<and>
           length (classifications eventType (Changes_Index changes) h (Changes_Changes changes)) =
             length (Changes_Changes changes) \<and>
           map Some (Events_Events batch) =
             filter (\<lambda>r. r \<noteq> None)
               (classifications eventType (Changes_Index changes) h (Changes_Changes changes)) \<and>
           subseq (map Some (Events_Events batch))
             (classifications eventType (Changes_Index changes) h (Changes_Changes changes)) \<and>
           length (Events_Events batch) \<le> length (Changes_Changes changes)"
proof -
  let ?cls = "classifications eventType (Changes_Index changes) h (Changes_Changes changes)"
  let ?evs = "snd (appendEvents eventType (Changes_Index changes) h [] (Changes_Changes changes))"
  have eq: "map Some ?evs = filter (\<lambda>r. r \<noteq> None) ?cls"
    by (simp add: appendEvents_classifications)
  have sub: "subseq (map Some ?evs) ?cls"
    unfolding eq by (rule subseq_filter_left)
  have len: "length ?cls = length (Changes_Changes changes)"
    by (rule length_classifications)
  from sub have "length (map Some ?evs) \<le> length ?cls"
    by (rule list_emb_length)
  with len have "length ?evs \<le> length (Changes_Changes changes)"
    by simp
  with eq sub len show ?thesis
    by (simp add: eventsFromChanges_mapped [OF assms])
qed

theorem eventsFromChanges_subsequence_witness:
  "MsgTypeEvents (Changes_MsgType exampleChanges) = Some TypeAllocationUpdated \<and>
   classifications TypeAllocationUpdated 42 exampleHeap [allocUpsert, jobsMismatch, nodeDelete] =
     [Some \<lparr>Topic = TopicAllocation, Type = TypeAllocationUpdated, Key = ''a1'',
            Namespace = ''default'', FilterKeys = [''web'', ''d1''], Index = 42,
            Payload = AllocationEvent 6\<rparr>,
      None,
      Some \<lparr>Topic = TopicNode, Type = TypeAllocationUpdated, Key = ''n1'', Namespace = [],
            FilterKeys = [], Index = 42, Payload = NodeStreamEvent 7\<rparr>] \<and>
   (\<exists>h' batch.
      eventsFromChanges exampleHeap exampleChanges = (h', Some batch) \<and>
      Events_Events batch =
        [\<lparr>Topic = TopicAllocation, Type = TypeAllocationUpdated, Key = ''a1'',
          Namespace = ''default'', FilterKeys = [''web'', ''d1''], Index = 42,
          Payload = AllocationEvent 6\<rparr>,
         \<lparr>Topic = TopicNode, Type = TypeAllocationUpdated, Key = ''n1'', Namespace = [],
          FilterKeys = [], Index = 42, Payload = NodeStreamEvent 7\<rparr>])"
proof -
  have kind: "MsgTypeEvents (Changes_MsgType exampleChanges) = Some TypeAllocationUpdated"
    by (simp add: MsgTypeEvents_AllocUpdate)
  have cls:
    "classifications TypeAllocationUpdated 42 exampleHeap [allocUpsert, jobsMismatch, nodeDelete] =
       [Some \<lparr>Topic = TopicAllocation, Type = TypeAllocationUpdated, Key = ''a1'',
              Namespace = ''default'', FilterKeys = [''web'', ''d1''], Index = 42,
              Payload = AllocationEvent 6\<rparr>,
        None,
        Some \<lparr>Topic = TopicNode, Type = TypeAllocationUpdated, Key = ''n1'', Namespace = [],
              FilterKeys = [], Index = 42, Payload = NodeStreamEvent 7\<rparr>]"
    using eventFromChange_allocUpsert [of "[]"]
      eventFromChange_jobsMismatch [of "[OAllocation (exampleAllocation\<lparr>Allocation_Job := None\<rparr>)]"]
      eventFromChange_nodeDelete [of "[OAllocation (exampleAllocation\<lparr>Allocation_Job := None\<rparr>)]"]
    by simp
  from eventsFromChanges_subsequence [OF kind, of exampleHeap]
  obtain h' batch where
    r: "eventsFromChanges exampleHeap exampleChanges = (h', Some batch)" and
    m: "map Some (Events_Events batch) =
          filter (\<lambda>r. r \<noteq> None)
            (classifications TypeAllocationUpdated 42 exampleHeap
               [allocUpsert, jobsMismatch, nodeDelete])"
    by auto
  from m have "Events_Events batch =
        [\<lparr>Topic = TopicAllocation, Type = TypeAllocationUpdated, Key = ''a1'',
          Namespace = ''default'', FilterKeys = [''web'', ''d1''], Index = 42,
          Payload = AllocationEvent 6\<rparr>,
         \<lparr>Topic = TopicNode, Type = TypeAllocationUpdated, Key = ''n1'', Namespace = [],
          FilterKeys = [], Index = 42, Payload = NodeStreamEvent 7\<rparr>]"
    unfolding cls by (auto simp: map_eq_Cons_conv)
  with kind cls r show ?thesis
    by blast
qed

text \<open>
  Claim C2. The assembler returns no batch exactly when the write kind of the change
  set has no entry in the registry, whatever the changes are, and then leaves the heap
  alone. For a mapped write kind it returns a batch, and when no change classifies the
  batch carries no events.
\<close>

theorem eventsFromChanges_none_iff_unmapped:
  "(snd (eventsFromChanges h changes) = None) =
     (MsgTypeEvents (Changes_MsgType changes) = None) \<and>
   (MsgTypeEvents (Changes_MsgType changes) = None \<longrightarrow>
      eventsFromChanges h changes = (h, None)) \<and>
   (\<forall>eventType.
      MsgTypeEvents (Changes_MsgType changes) = Some eventType \<longrightarrow>
      (\<exists>h' batch. eventsFromChanges h changes = (h', Some batch)) \<and>
      (list_all (\<lambda>r. r = None)
         (classifications eventType (Changes_Index changes) h (Changes_Changes changes)) \<longrightarrow>
       (\<exists>h'. eventsFromChanges h changes =
          (h', Some \<lparr>Events_Index = Changes_Index changes, Events_Events = []\<rparr>))))"
proof (cases "MsgTypeEvents (Changes_MsgType changes)")
  case None
  then show ?thesis
    by (simp add: eventsFromChanges_unmapped)
next
  case (Some et)
  let ?cls = "classifications et (Changes_Index changes) h (Changes_Changes changes)"
  let ?evs = "snd (appendEvents et (Changes_Index changes) h [] (Changes_Changes changes))"
  have "?evs = []" if "list_all (\<lambda>r. r = None) ?cls"
  proof -
    from that have "filter (\<lambda>r. r \<noteq> None) ?cls = []"
      by (simp add: list_all_iff filter_empty_conv)
    then have "map Some ?evs = []"
      by (simp add: appendEvents_classifications)
    then show ?thesis by simp
  qed
  with Some show ?thesis
    by (simp add: eventsFromChanges_mapped [OF Some])
qed

theorem eventsFromChanges_none_iff_unmapped_witness:
  "MsgTypeEvents (OtherRequestType 0) = None \<and>
   eventsFromChanges exampleHeap (exampleChanges\<lparr>Changes_MsgType := OtherRequestType 0\<rparr>) =
     (exampleHeap, None) \<and>
   MsgTypeEvents AllocUpdateRequestType = Some TypeAllocationUpdated \<and>
   classifications TypeAllocationUpdated 42 exampleHeap [jobsMismatch] = [None] \<and>
   (\<exists>h'. eventsFromChanges exampleHeap (exampleChanges\<lparr>Changes_Changes := [jobsMismatch]\<rparr>) =
      (h', Some \<lparr>Events_Index = 42, Events_Events = []\<rparr>))"
proof -
  have unmapped: "MsgTypeEvents (OtherRequestType 0) = None"
    by (simp add: MsgTypeEvents_def)
  have cls: "classifications TypeAllocationUpdated 42 exampleHeap [jobsMismatch] = [None]"
    using eventFromChange_jobsMismatch [of "[]"] by simp
  from eventsFromChanges_none_iff_unmapped
    [of exampleHeap "exampleChanges\<lparr>Changes_MsgType := OtherRequestType 0\<rparr>"] unmapped
  have 1: "eventsFromChanges exampleHeap
             (exampleChanges\<lparr>Changes_MsgType := OtherRequestType 0\<rparr>) = (exampleHeap, None)"
    by simp
  from eventsFromChanges_none_iff_unmapped
    [of exampleHeap "exampleChanges\<lparr>Changes_Changes := [jobsMismatch]\<rparr>"]
    MsgTypeEvents_AllocUpdate cls
  have 2: "\<exists>h'. eventsFromChanges exampleHeap
             (exampleChanges\<lparr>Changes_Changes := [jobsMismatch]\<rparr>) =
      (h', Some \<lparr>Events_Index = 42, Events_Events = []\<rparr>)"
    by simp
  from unmapped 1 MsgTypeEvents_AllocUpdate cls 2 show ?thesis
    by blast
qed

text \<open>
  Claim C3. For a change set whose write kind the registry maps, the batch carries the
  index of the change set, and every event of the batch carries that index and the
  event type the registry gives for the write kind.
\<close>

theorem eventsFromChanges_stamps:
  assumes "MsgTypeEvents (Changes_MsgType changes) = Some eventType"
  shows "\<exists>h' batch.
           eventsFromChanges h changes = (h', Some batch) \<and>
           Events_Index batch = Changes_Index changes \<and>
           (\<forall>event \<in> set (Events_Events batch).
              Index event = Changes_Index changes \<and> Type event = eventType)"
proof -
  have "\<forall>e \<in> set (snd (appendEvents eventType (Changes_Index changes) h []
                          (Changes_Changes changes))).
          Index e = Changes_Index changes \<and> Type e = eventType"
    by (rule appendEvents_stamped) simp
  then show ?thesis
    by (simp add: eventsFromChanges_mapped [OF assms])
qed

theorem eventsFromChanges_stamps_witness:
  "MsgTypeEvents (Changes_MsgType exampleChanges) = Some TypeAllocationUpdated \<and>
   (\<exists>h' batch.
      eventsFromChanges exampleHeap exampleChanges = (h', Some batch) \<and>
      Events_Index batch = 42 \<and>
      list_all (\<lambda>event. Index event = 42 \<and> Type event = TypeAllocationUpdated)
        (Events_Events batch))"
proof -
  have kind: "MsgTypeEvents (Changes_MsgType exampleChanges) = Some TypeAllocationUpdated"
    by (simp add: MsgTypeEvents_AllocUpdate)
  from eventsFromChanges_stamps [OF kind, of exampleHeap] kind show ?thesis
    by (simp add: list_all_iff)
qed

subsection \<open>The classifier\<close>

lemma node_change:
  assumes "Table c = ''nodes''" and "authoritative c = Pointer a"
    and "lookup h a = Some (ONode n)"
  shows "eventFromChange h c =
           (h @ [ONode (n\<lparr>Node_SecretID := []\<rparr>)],
            emptyEvent\<lparr>Topic := TopicNode, Key := Node_ID n,
              Payload := NodeStreamEvent (length h)\<rparr>, True)"
proof (cases "Deleted c")
  case True
  with assms show ?thesis
    by (simp add: deleted_nodes authoritative_Deleted assertType_Pointer derefNode_ONode)
next
  case False
  with assms show ?thesis
    by (simp add: upsert_nodes authoritative_upsert assertType_Pointer derefNode_ONode)
qed

text \<open>
  Claim C4. A change on the node table whose authoritative snapshot is a node, on the
  delete path as on the upsert path, gives an event with topic Node, the id of the node
  as key, no namespace and no filter keys. Its payload points to a node that equals the
  snapshot with the secret field cleared, so the payload never carries the secret of
  the snapshot.
\<close>

theorem node_event_sanitized:
  assumes "Table c = ''nodes''" and "authoritative c = Pointer a"
    and "lookup h a = Some (ONode n)"
  shows "\<exists>h' event p.
           eventFromChange h c = (h', event, True) \<and>
           Topic event = TopicNode \<and>
           Key event = Node_ID n \<and>
           Namespace event = [] \<and>
           FilterKeys event = [] \<and>
           Payload event = NodeStreamEvent p \<and>
           derefNode h' p = n\<lparr>Node_SecretID := []\<rparr> \<and>
           Node_SecretID (derefNode h' p) = []"
  by (simp add: node_change [OF assms] emptyEvent_def derefNode_new)

theorem node_event_sanitized_witness:
  "Table nodeDelete = ''nodes'' \<and>
   authoritative nodeDelete = Pointer 2 \<and>
   authoritative nodeUpsert = Pointer 2 \<and>
   lookup exampleHeap 2 = Some (ONode exampleNode) \<and>
   (\<exists>h' event p.
      eventFromChange exampleHeap nodeDelete = (h', event, True) \<and>
      Topic event = TopicNode \<and> Key event = ''n1'' \<and> Namespace event = [] \<and>
      FilterKeys event = [] \<and> Payload event = NodeStreamEvent p \<and>
      derefNode h' p = \<lparr>Node_ID = ''n1'', Node_SecretID = [], Node_Name = ''client-1''\<rparr>) \<and>
   (\<exists>h' event p.
      eventFromChange exampleHeap nodeUpsert = (h', event, True) \<and>
      Topic event = TopicNode \<and> Key event = ''n1'' \<and> Namespace event = [] \<and>
      FilterKeys event = [] \<and> Payload event = NodeStreamEvent p \<and>
      derefNode h' p = \<lparr>Node_ID = ''n1'', Node_SecretID = [], Node_Name = ''client-1''\<rparr>)"
proof -
  have t: "Table nodeDelete = ''nodes''" "Table nodeUpsert = ''nodes''"
    by simp_all
  have d: "authoritative nodeDelete = Pointer 2"
    by (simp add: authoritative_def)
  have u: "authoritative nodeUpsert = Pointer 2"
    by (simp add: authoritative_def)
  have l: "lookup exampleHeap 2 = Some (ONode exampleNode)"
    by (simp add: lookup_def)
  from node_event_sanitized [OF t(1) d l] node_event_sanitized [OF t(2) u l] t d u l
  show ?thesis
    by auto
qed

text \<open>
  Claim C5. An upsert on the allocation table whose after snapshot is an allocation
  gives an event with topic Allocation, the id of the allocation as key, its namespace
  as namespace and its job id and deployment id, in this order, as filter keys. The
  payload points to an allocation that equals the snapshot with the job field nil,
  also when the job field of the snapshot is set.
\<close>

theorem allocation_event_shrunk:
  assumes "\<not> Deleted c" and "Table c = ''allocs''" and "After c = Pointer a"
    and "lookup h a = Some (OAllocation alloc)"
  shows "\<exists>h' event p.
           eventFromChange h c = (h', event, True) \<and>
           Topic event = TopicAllocation \<and>
           Key event = Allocation_ID alloc \<and>
           Namespace event = Allocation_Namespace alloc \<and>
           FilterKeys event = [Allocation_JobID alloc, Allocation_DeploymentID alloc] \<and>
           Payload event = AllocationEvent p \<and>
           derefAllocation h' p = alloc\<lparr>Allocation_Job := None\<rparr> \<and>
           Allocation_Job (derefAllocation h' p) = None"
  using assms
  by (simp add: upsert_allocs assertType_Pointer derefAllocation_OAllocation emptyEvent_def
        derefAllocation_new)

theorem allocation_event_shrunk_witness:
  "\<not> Deleted allocUpsert \<and>
   Table allocUpsert = ''allocs'' \<and>
   After allocUpsert = Pointer 1 \<and>
   lookup exampleHeap 1 = Some (OAllocation exampleAllocation) \<and>
   Allocation_Job exampleAllocation = Some 0 \<and>
   (\<exists>h' event p.
      eventFromChange exampleHeap allocUpsert = (h', event, True) \<and>
      Topic event = TopicAllocation \<and> Key event = ''a1'' \<and> Namespace event = ''default'' \<and>
      FilterKeys event = [''web'', ''d1''] \<and> Payload event = AllocationEvent p \<and>
      Allocation_Job (derefAllocation h' p) = None)"
proof -
  have 1: "\<not> Deleted allocUpsert" and 2: "Table allocUpsert = ''allocs''"
    and 3: "After allocUpsert = Pointer 1"
    by simp_all
  have 4: "lookup exampleHeap 1 = Some (OAllocation exampleAllocation)"
    by (simp add: lookup_def)
  from allocation_event_shrunk [OF 1 2 3 4] 4 show ?thesis
    by auto
qed

lemma mismatch_iff:
  "mismatch h c \<longleftrightarrow>
     expectedType (Table c) = None \<or> authoritative c = NilValue \<or>
     (\<exists>a ob. authoritative c = Pointer a \<and> lookup h a = Some ob \<and>
        expectedType (Table c) \<noteq> Some (typeOf ob))"
  by (auto simp: mismatch_def split: option.splits iface.splits)

lemma appendEvents_skip:
  assumes "mismatch h c"
  shows "appendEvents et i h evs (xs @ c # ys) = appendEvents et i h evs (xs @ ys)"
proof -
  obtain h' evs' where r: "appendEvents et i h evs xs = (h', evs')"
    by (cases "appendEvents et i h evs xs") auto
  from appendEvents_extends [of et i h evs xs] r obtain ext where "h' = h @ ext"
    by auto
  with assms have "mismatch h' c"
    by (simp add: mismatch_append)
  then have "eventFromChange h' c = (h', emptyEvent, False)"
    by (rule mismatch_no_event)
  then have "appendEvents et i h' evs' (c # ys) = appendEvents et i h' evs' ys"
    by simp
  then show ?thesis
    by (simp add: appendEvents_append r)
qed

text \<open>
  Claim C6. A change whose table is outside the dispatch set, or whose authoritative
  snapshot is nil, or whose authoritative snapshot points to a row of another type than
  its table expects, gives no event: the classifier returns the zero event with
  \<open>ok = false\<close> and touches nothing. The assembler goes on with the other changes: the
  result for a change set that holds such a change is the result for the change set
  without it.
\<close>

theorem mismatch_silently_omitted:
  assumes "expectedType (Table c) = None \<or> authoritative c = NilValue \<or>
     (\<exists>a ob. authoritative c = Pointer a \<and> lookup h a = Some ob \<and>
        expectedType (Table c) \<noteq> Some (typeOf ob))"
  shows "eventFromChange h c = (h, emptyEvent, False) \<and>
         eventsFromChanges h (changes\<lparr>Changes_Changes := xs @ c # ys\<rparr>) =
           eventsFromChanges h (changes\<lparr>Changes_Changes := xs @ ys\<rparr>)"
proof -
  from assms have m: "mismatch h c"
    by (simp add: mismatch_iff)
  then have "eventFromChange h c = (h, emptyEvent, False)"
    by (rule mismatch_no_event)
  moreover have "eventsFromChanges h (changes\<lparr>Changes_Changes := xs @ c # ys\<rparr>) =
           eventsFromChanges h (changes\<lparr>Changes_Changes := xs @ ys\<rparr>)"
    by (cases "MsgTypeEvents (Changes_MsgType changes)")
      (simp_all add: eventsFromChanges_mapped eventsFromChanges_unmapped appendEvents_skip [OF m])
  ultimately show ?thesis ..
qed

theorem mismatch_silently_omitted_witness:
  "authoritative jobsMismatch = Pointer 2 \<and>
   lookup exampleHeap 2 = Some (ONode exampleNode) \<and>
   expectedType (Table jobsMismatch) = Some TJob \<and>
   typeOf (ONode exampleNode) = TNode \<and>
   eventFromChange exampleHeap jobsMismatch = (exampleHeap, emptyEvent, False) \<and>
   eventsFromChanges exampleHeap (exampleChanges\<lparr>Changes_Changes := [jobsMismatch, allocUpsert]\<rparr>) =
     (exampleHeap @ [OAllocation (exampleAllocation\<lparr>Allocation_Job := None\<rparr>)],
      Some \<lparr>Events_Index = 42,
            Events_Events =
              [\<lparr>Topic = TopicAllocation, Type = TypeAllocationUpdated, Key = ''a1'',
                Namespace = ''default'', FilterKeys = [''web'', ''d1''], Index = 42,
                Payload = AllocationEvent 6\<rparr>]\<rparr>)"
proof -
  have a: "authoritative jobsMismatch = Pointer 2"
    by (simp add: authoritative_def)
  have l: "lookup exampleHeap 2 = Some (ONode exampleNode)"
    by (simp add: lookup_def)
  have e: "expectedType (Table jobsMismatch) = Some TJob"
    by (simp add: expectedType_def)
  have t: "typeOf (ONode exampleNode) = TNode"
    by simp
  have hyp: "expectedType (Table jobsMismatch) = None \<or> authoritative jobsMismatch = NilValue \<or>
     (\<exists>a ob. authoritative jobsMismatch = Pointer a \<and> lookup exampleHeap a = Some ob \<and>
        expectedType (Table jobsMismatch) \<noteq> Some (typeOf ob))"
    using a l e by simp
  have rest: "eventsFromChanges exampleHeap (exampleChanges\<lparr>Changes_Changes := [allocUpsert]\<rparr>) =
     (exampleHeap @ [OAllocation (exampleAllocation\<lparr>Allocation_Job := None\<rparr>)],
      Some \<lparr>Events_Index = 42,
            Events_Events =
              [\<lparr>Topic = TopicAllocation, Type = TypeAllocationUpdated, Key = ''a1'',
                Namespace = ''default'', FilterKeys = [''web'', ''d1''], Index = 42,
                Payload = AllocationEvent 6\<rparr>]\<rparr>)"
    using eventFromChange_allocUpsert [of "[]"]
    by (simp add: eventsFromChanges_def MsgTypeEvents_AllocUpdate)
  from mismatch_silently_omitted [OF hyp, where changes = exampleChanges and xs = "[]" and ys = "[allocUpsert]"] rest a l e t
  show ?thesis
    by simp
qed

text \<open>
  Claim C7. On the access-token table and on the access-policy table the delete path,
  which reads \<open>Before\<close>, and the upsert path, which reads \<open>After\<close>, follow one rule: a
  deleted change and an upsert of the same table over the same snapshot give the same
  result. For a token the topic is ACLToken and the key is the accessor id; for a
  policy the topic is ACLPolicy and the key is the name of the policy.
\<close>

theorem acl_delete_upsert_symmetric:
  "(Table c \<in> {''acl_token'', ''acl_policy''} \<longrightarrow> Table c' = Table c \<longrightarrow>
      Deleted c \<longrightarrow> \<not> Deleted c' \<longrightarrow> After c' = Before c \<longrightarrow>
      eventFromChange h c' = eventFromChange h c) \<and>
   (Table c = ''acl_token'' \<longrightarrow> authoritative c = Pointer a \<longrightarrow>
      lookup h a = Some (OACLToken token) \<longrightarrow>
      eventFromChange h c =
        (h, emptyEvent\<lparr>Topic := TopicACLToken, Key := AccessorID token,
              Payload := NewACLTokenEvent a\<rparr>, True)) \<and>
   (Table c = ''acl_policy'' \<longrightarrow> authoritative c = Pointer a \<longrightarrow>
      lookup h a = Some (OACLPolicy policy) \<longrightarrow>
      eventFromChange h c =
        (h, emptyEvent\<lparr>Topic := TopicACLPolicy, Key := ACLPolicy_Name policy,
              Payload := ACLPolicyEvent a\<rparr>, True))"
proof (intro conjI impI)
  assume "Table c \<in> {''acl_token'', ''acl_policy''}" "Table c' = Table c" "Deleted c"
    "\<not> Deleted c'" "After c' = Before c"
  then show "eventFromChange h c' = eventFromChange h c"
    by (auto simp: deleted_acl_token upsert_acl_token deleted_acl_policy upsert_acl_policy)
next
  assume "Table c = ''acl_token''" "authoritative c = Pointer a"
    "lookup h a = Some (OACLToken token)"
  then show "eventFromChange h c =
        (h, emptyEvent\<lparr>Topic := TopicACLToken, Key := AccessorID token,
              Payload := NewACLTokenEvent a\<rparr>, True)"
    by (cases "Deleted c")
      (simp_all add: deleted_acl_token upsert_acl_token authoritative_def assertType_Pointer
         derefACLToken_OACLToken)
next
  assume "Table c = ''acl_policy''" "authoritative c = Pointer a"
    "lookup h a = Some (OACLPolicy policy)"
  then show "eventFromChange h c =
        (h, emptyEvent\<lparr>Topic := TopicACLPolicy, Key := ACLPolicy_Name policy,
              Payload := ACLPolicyEvent a\<rparr>, True)"
    by (cases "Deleted c")
      (simp_all add: deleted_acl_policy upsert_acl_policy authoritative_def assertType_Pointer
         derefACLPolicy_OACLPolicy)
qed

theorem acl_delete_upsert_symmetric_witness:
  "Table tokenDelete = ''acl_token'' \<and> Table tokenUpsert = Table tokenDelete \<and>
   Deleted tokenDelete \<and> \<not> Deleted tokenUpsert \<and>
   After tokenUpsert = Before tokenDelete \<and>
   authoritative tokenDelete = Pointer 3 \<and>
   lookup exampleHeap 3 = Some (OACLToken exampleToken) \<and>
   eventFromChange exampleHeap tokenUpsert = eventFromChange exampleHeap tokenDelete \<and>
   eventFromChange exampleHeap tokenDelete =
     (exampleHeap,
      \<lparr>Topic = TopicACLToken, Type = TypeUnset, Key = ''acc-1'', Namespace = [],
       FilterKeys = [], Index = 0, Payload = ACLTokenEvent 3\<rparr>, True) \<and>
   Table policyDelete = ''acl_policy'' \<and>
   authoritative policyDelete = Pointer 4 \<and>
   lookup exampleHeap 4 = Some (OACLPolicy examplePolicy) \<and>
   eventFromChange exampleHeap policyDelete =
     (exampleHeap,
      \<lparr>Topic = TopicACLPolicy, Type = TypeUnset, Key = ''readonly'', Namespace = [],
       FilterKeys = [], Index = 0, Payload = ACLPolicyEvent 4\<rparr>, True)"
proof -
  have t: "authoritative tokenDelete = Pointer 3"
    and p: "authoritative policyDelete = Pointer 4"
    by (simp_all add: authoritative_def)
  have lt: "lookup exampleHeap 3 = Some (OACLToken exampleToken)"
    and lp: "lookup exampleHeap 4 = Some (OACLPolicy examplePolicy)"
    by (simp_all add: lookup_def)
  from acl_delete_upsert_symmetric
         [of tokenDelete tokenUpsert exampleHeap 3 exampleToken examplePolicy]
       acl_delete_upsert_symmetric
         [of policyDelete policyDelete exampleHeap 4 exampleToken examplePolicy]
       t p lt lp
  show ?thesis
    by (simp add: emptyEvent_def NewACLTokenEvent_def)
qed

text \<open>
  Claim C8. A deleted change on the evaluation, allocation, job, deployment or
  auth-method table gives no event. The delete path has cases for the access-token,
  access-policy, node and service-registration tables only: for every other table it
  returns \<open>ok = false\<close>, and a deleted change that does classify is on one of the four.
\<close>

theorem delete_path_tables:
  assumes "Deleted c"
  shows "(Table c \<in> {''evals'', ''allocs'', ''jobs'', ''deployment'', ''auth_method''} \<longrightarrow>
            eventFromChange h c = (h, emptyEvent, False)) \<and>
         (Table c \<notin> {''acl_token'', ''acl_policy'', ''nodes'', TableServiceRegistrations} \<longrightarrow>
            eventFromChange h c = (h, emptyEvent, False)) \<and>
         (snd (snd (eventFromChange h c)) \<longrightarrow>
            Table c \<in> {''acl_token'', ''acl_policy'', ''nodes'', TableServiceRegistrations})"
proof -
  have other: "eventFromChange h c = (h, emptyEvent, False)"
    if "Table c \<notin> {''acl_token'', ''acl_policy'', ''nodes'', TableServiceRegistrations}"
    using assms that by (rule deleted_other)
  have "Table c \<notin> {''acl_token'', ''acl_policy'', ''nodes'', TableServiceRegistrations}"
    if "Table c \<in> {''evals'', ''allocs'', ''jobs'', ''deployment'', ''auth_method''}"
    using that by (auto simp: TableServiceRegistrations_def)
  moreover have "Table c \<in> {''acl_token'', ''acl_policy'', ''nodes'', TableServiceRegistrations}"
    if "snd (snd (eventFromChange h c))"
  proof (rule ccontr)
    assume "Table c \<notin> {''acl_token'', ''acl_policy'', ''nodes'', TableServiceRegistrations}"
    then have "eventFromChange h c = (h, emptyEvent, False)" by (rule other)
    with that show False by simp
  qed
  ultimately show ?thesis
    using other by blast
qed

theorem delete_path_tables_witness:
  "Deleted jobDelete \<and>
   Before jobDelete = Pointer 0 \<and>
   lookup exampleHeap 0 = Some (OJob exampleJob) \<and>
   eventFromChange exampleHeap jobDelete = (exampleHeap, emptyEvent, False) \<and>
   Deleted nodeDelete \<and>
   snd (snd (eventFromChange exampleHeap nodeDelete)) \<and>
   Table nodeDelete = ''nodes''"
proof -
  have d: "Deleted jobDelete" "Deleted nodeDelete"
    by simp_all
  have l: "lookup exampleHeap 0 = Some (OJob exampleJob)"
    by (simp add: lookup_def)
  have ok: "snd (snd (eventFromChange exampleHeap nodeDelete))"
    using eventFromChange_nodeDelete [of "[]"] by simp
  from delete_path_tables [OF d(1), of exampleHeap] delete_path_tables [OF d(2), of exampleHeap]
    d l ok
  show ?thesis
    by simp
qed

text \<open>
  Claim C9. Classification never writes to a row that was in the heap before the call:
  the heap that the classifier, and the assembler, leave behind is the heap they were
  given followed by the rows they allocated. The allocation whose job field is set to
  nil and the node whose secret is cleared are fresh copies, and every snapshot that a
  change refers to reads after the call as it did before it.
\<close>

theorem snapshots_unchanged:
  "(\<exists>new. fst (eventFromChange h c) = h @ new) \<and>
   (\<exists>new. fst (eventsFromChanges h changes) = h @ new) \<and>
   (\<forall>a ob. lookup h a = Some ob \<longrightarrow>
      lookup (fst (eventsFromChanges h changes)) a = Some ob)"
proof -
  have ext: "\<exists>new. fst (eventsFromChanges h changes) = h @ new"
  proof (cases "MsgTypeEvents (Changes_MsgType changes)")
    case None
    then show ?thesis by (simp add: eventsFromChanges_unmapped)
  next
    case (Some et)
    from appendEvents_extends [of et "Changes_Index changes" h "[]" "Changes_Changes changes"]
    show ?thesis by (simp add: eventsFromChanges_mapped [OF Some])
  qed
  then obtain new where "fst (eventsFromChanges h changes) = h @ new" ..
  then have "\<forall>a ob. lookup h a = Some ob \<longrightarrow>
      lookup (fst (eventsFromChanges h changes)) a = Some ob"
    by (simp add: lookup_Some_append)
  with ext eventFromChange_extends [of h c] show ?thesis
    by blast
qed

theorem snapshots_unchanged_witness:
  "lookup exampleHeap 1 = Some (OAllocation exampleAllocation) \<and>
   lookup exampleHeap 2 = Some (ONode exampleNode) \<and>
   lookup (fst (eventsFromChanges exampleHeap exampleChanges)) 1 =
     Some (OAllocation exampleAllocation) \<and>
   Allocation_Job (derefAllocation (fst (eventsFromChanges exampleHeap exampleChanges)) 1) =
     Some 0 \<and>
   lookup (fst (eventsFromChanges exampleHeap exampleChanges)) 2 = Some (ONode exampleNode) \<and>
   Node_SecretID (derefNode (fst (eventsFromChanges exampleHeap exampleChanges)) 2) =
     ''s3cr3t''"
proof -
  have a: "lookup exampleHeap 1 = Some (OAllocation exampleAllocation)"
    and n: "lookup exampleHeap 2 = Some (ONode exampleNode)"
    by (simp_all add: lookup_def)
  from snapshots_unchanged [of exampleHeap allocUpsert exampleChanges] a n
  have "lookup (fst (eventsFromChanges exampleHeap exampleChanges)) 1 =
          Some (OAllocation exampleAllocation)"
    and "lookup (fst (eventsFromChanges exampleHeap exampleChanges)) 2 =
          Some (ONode exampleNode)"
    by blast+
  with a n show ?thesis
    by (simp add: derefAllocation_OAllocation derefNode_ONode)
qed

text \<open>
  Claim C10. On the service-registration table the delete path, reading \<open>Before\<close>, and
  the upsert path, reading \<open>After\<close>, follow one rule: the topic is Service, the key is
  the id of the registration, the namespace is its namespace and the filter keys are
  its job id and its service name, in this order. A deleted change and an upsert over
  the same snapshot give the same result.
\<close>

theorem service_delete_upsert_symmetric:
  "(Table c = TableServiceRegistrations \<longrightarrow> Table c' = TableServiceRegistrations \<longrightarrow>
      Deleted c \<longrightarrow> \<not> Deleted c' \<longrightarrow> After c' = Before c \<longrightarrow>
      eventFromChange h c' = eventFromChange h c) \<and>
   (Table c = TableServiceRegistrations \<longrightarrow> authoritative c = Pointer a \<longrightarrow>
      lookup h a = Some (OServiceRegistration service) \<longrightarrow>
      eventFromChange h c =
        (h, emptyEvent\<lparr>Topic := TopicService, Key := ServiceRegistration_ID service,
              FilterKeys := [ServiceRegistration_JobID service, ServiceName service],
              Namespace := ServiceRegistration_Namespace service,
              Payload := ServiceRegistrationStreamEvent a\<rparr>, True))"
proof (intro conjI impI)
  assume "Table c = TableServiceRegistrations" "Table c' = TableServiceRegistrations"
    "Deleted c" "\<not> Deleted c'" "After c' = Before c"
  then show "eventFromChange h c' = eventFromChange h c"
    by (simp add: deleted_service upsert_service)
next
  assume "Table c = TableServiceRegistrations" "authoritative c = Pointer a"
    "lookup h a = Some (OServiceRegistration service)"
  then show "eventFromChange h c =
        (h, emptyEvent\<lparr>Topic := TopicService, Key := ServiceRegistration_ID service,
              FilterKeys := [ServiceRegistration_JobID service, ServiceName service],
              Namespace := ServiceRegistration_Namespace service,
              Payload := ServiceRegistrationStreamEvent a\<rparr>, True)"
    by (cases "Deleted c")
      (simp_all add: deleted_service upsert_service authoritative_def assertType_Pointer
         derefServiceRegistration_OServiceRegistration)
qed

theorem service_delete_upsert_symmetric_witness:
  "Table serviceDelete = TableServiceRegistrations \<and>
   Table serviceUpsert = TableServiceRegistrations \<and>
   Deleted serviceDelete \<and> \<not> Deleted serviceUpsert \<and>
   After serviceUpsert = Before serviceDelete \<and>
   authoritative serviceDelete = Pointer 5 \<and>
   lookup exampleHeap 5 = Some (OServiceRegistration exampleService) \<and>
   eventFromChange exampleHeap serviceUpsert = eventFromChange exampleHeap serviceDelete \<and>
   eventFromChange exampleHeap serviceDelete =
     (exampleHeap,
      \<lparr>Topic = TopicService, Type = TypeUnset, Key = ''svc-1'', Namespace = ''default'',
       FilterKeys = [''web'', ''redis''], Index = 0,
       Payload = ServiceRegistrationStreamEvent 5\<rparr>, True)"
proof -
  have s: "authoritative serviceDelete = Pointer 5"
    by (simp add: authoritative_def)
  have l: "lookup exampleHeap 5 = Some (OServiceRegistration exampleService)"
    by (simp add: lookup_def)
  from service_delete_upsert_symmetric
         [of serviceDelete serviceUpsert exampleHeap 5 exampleService] s l
  show ?thesis
    by (simp add: emptyEvent_def)
qed

end
